theory Spec2Isabelle
  imports Complex_Main "HOL-Library.Log_Nat"
begin

section \<open>Python values and the built-ins that \<^verbatim>\<open>app.py\<close> calls\<close>

text \<open>
  The handler of \<^verbatim>\<open>src/app.py\<close> works on Python objects: the strings of the
  request path and of the registry, the object that \<^verbatim>\<open>response.json()\<close> returns,
  and the dictionaries it hands to \<^verbatim>\<open>jsonify\<close>. They are modelled by one datatype of
  Python values. A \<^verbatim>\<open>dict\<close> is an association list (its keys are strings in every
  dictionary of this program and are distinct, so looking a key up finds the one entry),
  in insertion order, which is what \<^verbatim>\<open>list(CITIES.keys())\<close> enumerates.

  Strings are lists of characters and the model covers ASCII text: \<^verbatim>\<open>str.lower\<close> and
  \<^verbatim>\<open>str.capitalize\<close> are written out for the letters A to Z and a to z and leave every
  other character as it is. Python cases a character beyond ASCII by the Unicode tables
  of the interpreter, which are not part of the model; what is stated about the casing of
  a string is stated for the strings that \<open>isascii\<close> accepts.
\<close>

subsection \<open>Floats\<close>

text \<open>
  A Python \<^verbatim>\<open>float\<close> is an IEEE-754 binary64 number: a sign and a magnitude for the
  finite ones (so that \<^verbatim>\<open>-0.0\<close> is a value of its own), the two infinities, and NaN.
  The sign is \<open>True\<close> for a negative number.
\<close>

datatype pyfloat = Finite bool rat | Infinity bool | NaN

definition pow2 :: "int \<Rightarrow> rat" where
  "pow2 e = (if 0 \<le> e then 2 ^ nat e else 1 / 2 ^ nat (- e))"

text \<open>\<open>ilog2 q\<close> is the exponent \<open>e\<close> with \<open>2^e \<le> q < 2^(e+1)\<close>, for \<open>q > 0\<close>.\<close>

definition ilog2 :: "rat \<Rightarrow> int" where
  "ilog2 q = (if 1 \<le> q then int (floorlog 2 (nat \<lfloor>q\<rfloor>)) - 1
              else - int (floorlog 2 (nat \<lceil>1 / q\<rceil> - 1)))"

definition round_half_even :: "rat \<Rightarrow> int" where
  "round_half_even x =
     (let f = \<lfloor>x\<rfloor>; d = x - of_int f
      in if d < 1 / 2 then f else if 1 / 2 < d then f + 1 else if even f then f else f + 1)"

text \<open>
  The binary64 number nearest to a magnitude \<open>q \<ge> 0\<close>, ties to the even significand:
  53 significant bits, and below \<open>2^-1022\<close> the fixed spacing \<open>2^-1074\<close> of the
  subnormal numbers. A result of \<open>2^1024\<close> or more is out of range; the callers check it.
\<close>

definition binary64 :: "rat \<Rightarrow> rat" where
  "binary64 q =
     (if q = 0 then 0
      else let e = max (ilog2 q - 52) (- 1074)
           in of_int (round_half_even (q / pow2 e)) * pow2 e)"

text \<open>The float nearest to a rational: what a decimal literal such as \<^verbatim>\<open>15.04\<close> denotes.\<close>

definition py_float :: "rat \<Rightarrow> pyfloat" where
  "py_float q = (if q < 0 then Finite True (binary64 (- q)) else Finite False (binary64 q))"

subsection \<open>Values and exceptions\<close>

datatype pyval =
    PNone
  | PBool bool
  | PInt int
  | PFloat pyfloat
  | PStr string
  | PList "pyval list"
  | PDict "(string \<times> pyval) list"

text \<open>
  The exception classes that the handler's \<^verbatim>\<open>try\<close> block can meet. \<open>Timeout\<close>,
  \<open>HTTPError\<close> and \<open>RequestException\<close> are those of \<^verbatim>\<open>requests.exceptions\<close>;
  \<open>HTTPError\<close> carries \<^verbatim>\<open>e.response.status_code\<close>; \<open>RequestException\<close> stands for
  an instance of that class that is neither a \<open>Timeout\<close> nor an \<open>HTTPError\<close>
  (a connection error, for one). The others are Python's built-in classes; none of
  \<open>IndexError\<close>, \<open>TypeError\<close>, \<open>AttributeError\<close>, \<open>OverflowError\<close> is a subclass of
  \<open>KeyError\<close> or \<open>ValueError\<close>.
\<close>

datatype exn =
    Timeout
  | HTTPError nat
  | RequestException
  | KeyError
  | ValueError
  | IndexError
  | TypeError
  | AttributeError
  | OverflowError

text \<open>Sequencing of two computations that may raise: the first exception wins.\<close>

definition and_then :: "exn + 'a \<Rightarrow> ('a \<Rightarrow> exn + 'b) \<Rightarrow> exn + 'b" where
  "and_then r f = (case r of Inl e \<Rightarrow> Inl e | Inr v \<Rightarrow> f v)"

subsection \<open>Strings\<close>

definition lower_char :: "char \<Rightarrow> char" where
  "lower_char c =
     (if 65 \<le> (of_char c :: nat) \<and> (of_char c :: nat) \<le> 90
      then char_of ((of_char c :: nat) + 32) else c)"

definition upper_char :: "char \<Rightarrow> char" where
  "upper_char c =
     (if 97 \<le> (of_char c :: nat) \<and> (of_char c :: nat) \<le> 122
      then char_of ((of_char c :: nat) - 32) else c)"

text \<open>\<^verbatim>\<open>str.lower()\<close>.\<close>

definition lower :: "string \<Rightarrow> string" where
  "lower s = map lower_char s"

text \<open>\<^verbatim>\<open>str.isascii()\<close>: every character is below 128.\<close>

definition isascii :: "string \<Rightarrow> bool" where
  "isascii s = list_all (\<lambda>c. (of_char c :: nat) < 128) s"

text \<open>
  \<^verbatim>\<open>str.capitalize()\<close> on an ASCII string: the first character in upper case (Python
  takes its title case, which for an ASCII letter is the capital letter) and, as Python
  documents it, the rest in lower case.
\<close>

definition capitalize :: "string \<Rightarrow> string" where
  "capitalize s = (case s of [] \<Rightarrow> [] | c # cs \<Rightarrow> upper_char c # map lower_char cs)"

text \<open>\<^verbatim>\<open>str(n)\<close> of a non-negative integer: its decimal digits.\<close>

fun str_nat :: "nat \<Rightarrow> string" where
  "str_nat n =
     (if n < 10 then [char_of (48 + n)]
      else str_nat (n div 10) @ [char_of (48 + n mod 10)])"

definition hex_digit :: "nat \<Rightarrow> char" where
  "hex_digit d = (if d < 10 then char_of (48 + d) else char_of (87 + d))"

text \<open>
  \<^verbatim>\<open>repr\<close> of a string: single quotes, unless the string holds a single quote and no
  double quote; the quote in use and the backslash are escaped, tab, newline and carriage
  return have their letters, and the other control characters are written \<^verbatim>\<open>\xNN\<close>.
\<close>

definition repr_char :: "char \<Rightarrow> char \<Rightarrow> string" where
  "repr_char quote c =
     (if c = quote \<or> c = CHR 0x5C then [CHR 0x5C, c]
      else if c = CHR 0x09 then [CHR 0x5C, CHR ''t'']
      else if c = CHR 0x0A then [CHR 0x5C, CHR ''n'']
      else if c = CHR 0x0D then [CHR 0x5C, CHR ''r'']
      else if (of_char c :: nat) < 32 \<or> (of_char c :: nat) = 127
      then [CHR 0x5C, CHR ''x'', hex_digit ((of_char c :: nat) div 16),
            hex_digit ((of_char c :: nat) mod 16)]
      else [c])"

definition repr_str :: "string \<Rightarrow> string" where
  "repr_str s =
     (let quote = (if CHR 0x27 \<in> set s \<and> CHR 0x22 \<notin> set s then CHR 0x22 else CHR 0x27)
      in [quote] @ concat (map (repr_char quote) s) @ [quote])"

fun join :: "string \<Rightarrow> string list \<Rightarrow> string" where
  "join sep [] = []"
| "join sep [x] = x"
| "join sep (x # y # ys) = x @ sep @ join sep (y # ys)"

text \<open>\<^verbatim>\<open>str\<close> of a list of strings, as an f-string formats it.\<close>

definition str_list :: "string list \<Rightarrow> string" where
  "str_list xs = ''['' @ join '', '' (map repr_str xs) @ '']''"

subsection \<open>Subscripts, \<^verbatim>\<open>round\<close> and the method call\<close>

text \<open>
  \<^verbatim>\<open>x['k']\<close> with a string key: a dictionary answers or raises \<open>KeyError\<close>; a list or
  a string takes no string index, and the other values take no subscript at all
  (\<open>TypeError\<close> in both cases).
\<close>

fun getitem :: "pyval \<Rightarrow> string \<Rightarrow> exn + pyval" where
  "getitem (PDict kvs) k = (case map_of kvs k of None \<Rightarrow> Inl KeyError | Some v \<Rightarrow> Inr v)"
| "getitem v k = Inl TypeError"

text \<open>
  \<^verbatim>\<open>x[0]\<close>: the first element of a list or the first character of a string,
  \<open>IndexError\<close> when they are empty; a dictionary of string keys has no key \<open>0\<close>.
\<close>

fun getitem0 :: "pyval \<Rightarrow> exn + pyval" where
  "getitem0 (PList []) = Inl IndexError"
| "getitem0 (PList (v # vs)) = Inr v"
| "getitem0 (PStr []) = Inl IndexError"
| "getitem0 (PStr (c # cs)) = Inr (PStr [c])"
| "getitem0 (PDict kvs) = Inl KeyError"
| "getitem0 v = Inl TypeError"

text \<open>\<^verbatim>\<open>x.capitalize()\<close>: only a string has the method.\<close>

fun capitalize_method :: "pyval \<Rightarrow> exn + pyval" where
  "capitalize_method (PStr s) = Inr (PStr (capitalize s))"
| "capitalize_method v = Inl AttributeError"

text \<open>
  \<^verbatim>\<open>round(x, 1)\<close>. An \<^verbatim>\<open>int\<close> is returned as it is and a \<^verbatim>\<open>bool\<close> as the
  \<^verbatim>\<open>int\<close> it is. A finite float is rounded on its exact value to one decimal place,
  a tie going to the even digit, and the float nearest to that decimal is returned, with
  the sign kept; infinities and NaN round to themselves. Other values have no
  \<^verbatim>\<open>__round__\<close>.
\<close>

fun round1 :: "pyval \<Rightarrow> exn + pyval" where
  "round1 (PInt i) = Inr (PInt i)"
| "round1 (PBool b) = Inr (PInt (if b then 1 else 0))"
| "round1 (PFloat (Finite s q)) =
     (let r = binary64 (of_int (round_half_even (q * 10)) / 10)
      in if 2 ^ 1024 \<le> r then Inl OverflowError else Inr (PFloat (Finite s r)))"
| "round1 (PFloat f) = Inr (PFloat f)"
| "round1 v = Inl TypeError"

text \<open>\<^verbatim>\<open>not x\<close> for the value of \<^verbatim>\<open>os.getenv\<close>: \<^verbatim>\<open>None\<close> and the empty string are false.\<close>

definition falsy :: "string option \<Rightarrow> bool" where
  "falsy x = (case x of None \<Rightarrow> True | Some s \<Rightarrow> s = [])"

section \<open>The module\<close>

text \<open>
  The module's global variables. \<open>API_KEY\<close> is what \<^verbatim>\<open>os.getenv\<close> returned when the
  module was loaded: \<open>None\<close> for an unset variable.
\<close>

record globals =
  API_KEY :: "string option"
  BASE_URL :: string
  CITIES :: "(string \<times> string) list"

definition load_module :: "string option \<Rightarrow> globals" where
  "load_module env =
     \<lparr>API_KEY = env,
      BASE_URL = ''http://api.openweathermap.org/data/2.5/weather'',
      CITIES = [(''newyork'', ''New York''), (''sydney'', ''Sydney''),
                (''capetown'', ''Cape Town''), (''bangkok'', ''Bangkok'')]\<rparr>"

text \<open>
  A route's answer is an HTTP status and the dictionary given to \<^verbatim>\<open>jsonify\<close>; a bare
  \<^verbatim>\<open>jsonify(...)\<close> has status 200. A route either returns an answer or lets an exception
  escape, and it is given the globals and returns them as they are afterwards.
\<close>

type_synonym response = "nat \<times> pyval"

definition home :: "globals \<Rightarrow> response \<times> globals" where
  "home g =
     ((200, PDict [(''status'', PStr ''running''),
                   (''service'', PStr ''Weather Backend API''),
                   (''available_cities'', PList (map PStr (map fst (CITIES g))))]), g)"

text \<open>
  The outbound call. \<^verbatim>\<open>requests.get\<close>, \<^verbatim>\<open>raise_for_status\<close> and
  \<^verbatim>\<open>response.json\<close> belong to a library: the provider is an argument of the model, a
  function from the request that line 71 builds to what these three calls do together,
  raise an exception or return the decoded object.
\<close>

record request =
  url :: string
  params :: "(string \<times> string option) list"
  timeout :: nat

type_synonym provider = "request \<Rightarrow> exn + pyval"

text \<open>
  Lines 65 to 71: the arguments of \<^verbatim>\<open>requests.get\<close>. The value of \<^verbatim>\<open>appid\<close> is
  the global \<open>API_KEY\<close> as it is.
\<close>

definition weather_request :: "globals \<Rightarrow> string \<Rightarrow> request" where
  "weather_request g city_name =
     \<lparr>url = BASE_URL g,
      params = [(''q'', Some city_name), (''appid'', API_KEY g), (''units'', Some ''metric'')],
      timeout = 10\<rparr>"

text \<open>Lines 77 to 83: the entries of \<^verbatim>\<open>weather_data\<close>, evaluated in their order.\<close>

definition weather_data :: "string \<Rightarrow> pyval \<Rightarrow> exn + pyval" where
  "weather_data city_name data =
     and_then (and_then (and_then (getitem data ''main'') (\<lambda>m. getitem m ''temp'')) round1)
       (\<lambda>temperature.
     and_then (and_then (and_then (and_then (getitem data ''weather'') getitem0)
                 (\<lambda>w. getitem w ''description'')) capitalize_method)
       (\<lambda>description.
     and_then (and_then (getitem data ''main'') (\<lambda>m. getitem m ''humidity''))
       (\<lambda>humidity.
     and_then (and_then (and_then (getitem data ''wind'') (\<lambda>w. getitem w ''speed'')) round1)
       (\<lambda>wind_speed.
     Inr (PDict [(''city'', PStr city_name),
                 (''temperature'', temperature),
                 (''description'', description),
                 (''humidity'', humidity),
                 (''wind_speed'', wind_speed)])))))"

definition error_body :: "string \<Rightarrow> string \<Rightarrow> pyval" where
  "error_body err msg = PDict [(''error'', PStr err), (''message'', PStr msg)]"

text \<open>
  Lines 87 to 109: the \<^verbatim>\<open>except\<close> clauses in their order. An exception that no
  clause names leaves the function.
\<close>

fun handle :: "exn + response \<Rightarrow> exn + response" where
  "handle (Inr r) = Inr r"
| "handle (Inl Timeout) =
     Inr (504, error_body ''Timeout'' ''Request to OpenWeatherMap API timed out'')"
| "handle (Inl (HTTPError code)) =
     Inr (502, error_body ''API Error''
                 (''OpenWeatherMap API returned an error: '' @ str_nat code))"
| "handle (Inl RequestException) =
     Inr (502, error_body ''Network Error'' ''Failed to connect to OpenWeatherMap API'')"
| "handle (Inl KeyError) =
     Inr (502, error_body ''Data Error''
                 ''Unexpected response format from OpenWeatherMap API'')"
| "handle (Inl ValueError) =
     Inr (502, error_body ''Data Error''
                 ''Unexpected response format from OpenWeatherMap API'')"
| "handle (Inl e) = Inl e"

text \<open>Lines 63 to 109: the \<^verbatim>\<open>try\<close> statement, run with the display name.\<close>

definition try_block :: "globals \<Rightarrow> provider \<Rightarrow> string \<Rightarrow> exn + response" where
  "try_block g prov city_name =
     handle (and_then (prov (weather_request g city_name))
               (\<lambda>data. and_then (weather_data city_name data) (\<lambda>body. Inr (200, body))))"

definition invalid_city_message :: "globals \<Rightarrow> string \<Rightarrow> string" where
  "invalid_city_message g city =
     ''City '' @ [CHR 0x22] @ city @ [CHR 0x22] @ '' not supported. Available cities: ''
       @ str_list (map fst (CITIES g))"

text \<open>
  \<^verbatim>\<open>CITIES[city_lower]\<close> on line 61 stands outside the \<^verbatim>\<open>try\<close> statement: were the
  key missing there, the \<open>KeyError\<close> would leave the function.
\<close>

definition get_weather :: "globals \<Rightarrow> provider \<Rightarrow> string \<Rightarrow> (exn + response) \<times> globals" where
  "get_weather g prov city =
     (let city_lower = lower city in
      if map_of (CITIES g) city_lower = None
      then (Inr (400, error_body ''Invalid city'' (invalid_city_message g city)), g)
      else if falsy (API_KEY g)
      then (Inr (500, error_body ''Configuration error''
                        ''OpenWeatherMap API key not configured''), g)
      else (case map_of (CITIES g) city_lower of
              None \<Rightarrow> (Inl KeyError, g)
            | Some city_name \<Rightarrow> (try_block g prov city_name, g)))"

text \<open>A stub of the provider that answers every request with the same decoded object.\<close>

definition stub_provider :: "pyval \<Rightarrow> provider" where
  "stub_provider data r = Inr data"

text \<open>A stub of the provider whose every call fails with the same exception.\<close>

definition failing_provider :: "exn \<Rightarrow> provider" where
  "failing_provider e r = Inl e"

section \<open>Facts about the built-ins and the \<^verbatim>\<open>try\<close> statement\<close>

subsection \<open>The float model rounds to nearest\<close>

text \<open>
  \<open>ilog2\<close> is the binary exponent, and \<open>binary64\<close> returns a multiple of the unit in
  the last place, with a significand of at most 53 bits, that lies within half a unit of
  its argument.
\<close>

lemma round_half_even_error: "\<bar>of_int (round_half_even x) - x\<bar> \<le> 1 / 2"
proof -
  have "of_int \<lfloor>x\<rfloor> \<le> x" "x < of_int \<lfloor>x\<rfloor> + 1"
    by linarith+
  then show ?thesis
    unfolding round_half_even_def Let_def by (simp add: abs_le_iff)
qed

lemma pow2_pos: "0 < pow2 e"
  by (simp add: pow2_def)

lemma pow2_of_nat: "pow2 (int n) = 2 ^ n"
  by (simp add: pow2_def)

lemma pow2_neg_nat: "pow2 (- int n) = 1 / 2 ^ n"
  by (cases n) (simp_all add: pow2_def nat_add_distrib)

lemma ilog2_bounds:
  assumes "0 < q"
  shows "pow2 (ilog2 q) \<le> q \<and> q < pow2 (ilog2 q + 1)"
proof (cases "1 \<le> q")
  case True
  define n where "n = nat \<lfloor>q\<rfloor>"
  define l where "l = floorlog 2 n"
  have n: "0 < n" using True by (simp add: n_def)
  then have b: "2 ^ (l - 1) \<le> n" "n < 2 ^ l"
    using floorlog_bounds [of n 2] by (simp_all add: l_def)
  from n have l: "0 < l" by (simp add: l_def floorlog_def)
  have "ilog2 q = int (l - 1)" "ilog2 q + 1 = int l"
    using True l by (simp_all add: ilog2_def n_def l_def)
  then have i: "pow2 (ilog2 q) = 2 ^ (l - 1)" "pow2 (ilog2 q + 1) = 2 ^ l"
    by (simp_all only: pow2_of_nat)
  have nq: "of_nat n \<le> q" "q < of_nat n + 1"
    using True unfolding n_def by (simp_all add: of_nat_nat) linarith+
  have "(2::rat) ^ (l - 1) \<le> of_nat n"
    using b(1) of_nat_le_iff [of "2 ^ (l - 1)" _, where ?'a = rat] by simp
  moreover have "(of_nat n :: rat) + 1 \<le> 2 ^ l"
    using b(2) of_nat_le_iff [of "n + 1" "2 ^ l", where ?'a = rat] by simp
  ultimately show ?thesis
    unfolding i using nq by linarith
next
  case False
  define c where "c = nat \<lceil>1 / q\<rceil>"
  define l where "l = floorlog 2 (c - 1)"
  from False assms have x: "1 < 1 / q" by simp
  then have c2: "2 \<le> c" unfolding c_def by linarith
  then have b: "2 ^ (l - 1) \<le> c - 1" "c - 1 < 2 ^ l"
    using floorlog_bounds [of "c - 1" 2] by (simp_all add: l_def)
  from c2 have l: "0 < l" by (simp add: l_def floorlog_def)
  have cx: "1 / q \<le> of_nat c" "of_nat c - 1 < 1 / q"
    using x unfolding c_def by (simp_all add: of_nat_nat) linarith+
  have "(2::rat) ^ (l - 1) \<le> of_nat (c - 1)"
    using b(1) of_nat_le_iff [of "2 ^ (l - 1)" _, where ?'a = rat] by simp
  then have lo: "(2::rat) ^ (l - 1) < 1 / q"
    using cx(2) c2 by (simp add: of_nat_diff)
  have "(of_nat c :: rat) \<le> 2 ^ l"
    using b(2) c2 of_nat_le_iff [of c "2 ^ l", where ?'a = rat] by simp
  then have hi: "1 / q \<le> 2 ^ l" using cx(1) by linarith
  have "ilog2 q = - int l" "ilog2 q + 1 = - int (l - 1)"
    using False l by (simp_all add: ilog2_def c_def l_def)
  then have i: "pow2 (ilog2 q) = 1 / 2 ^ l" "pow2 (ilog2 q + 1) = 1 / 2 ^ (l - 1)"
    by (simp_all only: pow2_neg_nat)
  from hi assms have "1 / 2 ^ l \<le> q"
    by (simp add: field_simps)
  moreover from lo assms have "q < 1 / 2 ^ (l - 1)"
    by (simp add: field_simps)
  ultimately show ?thesis
    unfolding i by simp
qed

lemma pow2_power_int: "pow2 e = power_int 2 e"
  by (simp add: pow2_def power_int_def power_inverse [symmetric] inverse_eq_divide power_one_over)

lemma pow2_add: "pow2 (a + b) = pow2 a * pow2 b"
  by (simp add: pow2_power_int power_int_add)

lemma pow2_mono: "a \<le> b \<Longrightarrow> pow2 a \<le> pow2 b"
  by (simp add: pow2_power_int power_int_increasing)

lemma binary64_error:
  assumes "0 < q"
  shows "\<bar>binary64 q - q\<bar> \<le> pow2 (max (ilog2 q - 52) (- 1074)) / 2"
proof -
  define e where "e = max (ilog2 q - 52) (- 1074)"
  have p: "0 < pow2 e" by (rule pow2_pos)
  have "\<bar>of_int (round_half_even (q / pow2 e)) - q / pow2 e\<bar> * pow2 e \<le> 1 / 2 * pow2 e"
    using round_half_even_error [of "q / pow2 e"] p by (simp only: mult_le_cancel_right_pos)
  moreover have "\<bar>of_int (round_half_even (q / pow2 e)) - q / pow2 e\<bar> * pow2 e
      = \<bar>(of_int (round_half_even (q / pow2 e)) - q / pow2 e) * pow2 e\<bar>"
    using p by (simp add: abs_mult)
  moreover have "(of_int (round_half_even (q / pow2 e)) - q / pow2 e) * pow2 e
      = of_int (round_half_even (q / pow2 e)) * pow2 e - q"
    using p by (simp add: field_simps)
  ultimately show ?thesis
    using assms by (simp add: binary64_def Let_def e_def [symmetric])
qed

lemma binary64_significand:
  assumes "0 < q"
  shows "\<exists>m. binary64 q = of_int m * pow2 (max (ilog2 q - 52) (- 1074)) \<and> 0 \<le> m \<and> m \<le> 2 ^ 53"
proof -
  define e where "e = max (ilog2 q - 52) (- 1074)"
  define m where "m = round_half_even (q / pow2 e)"
  have p: "0 < pow2 e" by (rule pow2_pos)
  have p53: "pow2 53 = 2 ^ 53"
    by (simp add: pow2_def)
  have "pow2 (ilog2 q + 1) = pow2 (53 + (ilog2 q - 52))"
    by (rule arg_cong [where f = pow2]) simp
  also have "\<dots> = pow2 53 * pow2 (ilog2 q - 52)"
    by (rule pow2_add)
  finally have s: "pow2 (ilog2 q + 1) = 2 ^ 53 * pow2 (ilog2 q - 52)"
    unfolding p53 .
  have "q < pow2 (ilog2 q + 1)"
    using assms ilog2_bounds by blast
  also note s
  also have "2 ^ 53 * pow2 (ilog2 q - 52) \<le> 2 ^ 53 * pow2 e"
    by (simp add: pow2_mono e_def)
  finally have hi: "q / pow2 e < 2 ^ 53" using p by (simp add: field_simps)
  have lo: "0 \<le> q / pow2 e" using assms p by simp
  have "0 \<le> m \<and> m \<le> 2 ^ 53"
  proof -
    have f: "0 \<le> \<lfloor>q / pow2 e\<rfloor>" "\<lfloor>q / pow2 e\<rfloor> < 2 ^ 53"
      using lo hi by (simp_all add: floor_less_iff)
    then show ?thesis
      unfolding m_def round_half_even_def Let_def by auto
  qed
  moreover have "binary64 q = of_int m * pow2 e"
    using assms by (simp add: binary64_def Let_def e_def [symmetric] m_def)
  ultimately show ?thesis unfolding e_def by blast
qed

subsection \<open>Strings, subscripts and the handler\<close>

lemma lower_registry_keys:
  "lower ''newyork'' = ''newyork''" "lower ''sydney'' = ''sydney''"
  "lower ''capetown'' = ''capetown''" "lower ''bangkok'' = ''bangkok''"
  by code_simp+

lemma and_then_Inr: "and_then r f = Inr y \<Longrightarrow> \<exists>v. r = Inr v \<and> f v = Inr y"
  by (cases r) (simp_all add: and_then_def)

lemma getitem0_PList: "getitem0 v = Inr w \<Longrightarrow> getitem w k = Inr d \<Longrightarrow> \<exists>ws. v = PList (w # ws)"
  by (cases v rule: getitem0.cases) auto

lemma capitalize_method_Inr: "capitalize_method v = Inr d \<Longrightarrow> \<exists>s. v = PStr s \<and> d = PStr (capitalize s)"
  by (cases v) simp_all

text \<open>An answer with status 200 is never made by an \<^verbatim>\<open>except\<close> clause.\<close>

lemma handle_200: "handle r = Inr (200, body) \<Longrightarrow> r = Inr (200, body)"
  by (cases r rule: handle.cases) simp_all

lemma try_block_200:
  assumes "try_block g prov city_name = Inr (200, body)"
  shows "\<exists>data. prov (weather_request g city_name) = Inr data \<and> weather_data city_name data = Inr body"
proof -
  from assms have
    "and_then (prov (weather_request g city_name))
       (\<lambda>data. and_then (weather_data city_name data) (\<lambda>body. Inr (200 :: nat, body)))
     = Inr (200, body)"
    unfolding try_block_def by (rule handle_200)
  then obtain data where d: "prov (weather_request g city_name) = Inr data"
    and "and_then (weather_data city_name data) (\<lambda>body. Inr (200 :: nat, body)) = Inr (200, body)"
    by (blast dest: and_then_Inr)
  then have "weather_data city_name data = Inr body"
    by (auto dest: and_then_Inr)
  with d show ?thesis by blast
qed

text \<open>A successful lookup went through both checks and through the whole \<^verbatim>\<open>try\<close> block.\<close>

lemma get_weather_200:
  assumes "fst (get_weather g prov city) = Inr (200, body)"
  shows "\<exists>city_name data. map_of (CITIES g) (lower city) = Some city_name \<and> \<not> falsy (API_KEY g)
           \<and> prov (weather_request g city_name) = Inr data
           \<and> weather_data city_name data = Inr body"
proof (cases "map_of (CITIES g) (lower city)")
  case None
  with assms show ?thesis by (simp add: get_weather_def)
next
  case (Some city_name)
  show ?thesis
  proof (cases "falsy (API_KEY g)")
    case True
    with Some assms show ?thesis by (simp add: get_weather_def)
  next
    case False
    with Some assms have "try_block g prov city_name = Inr (200, body)"
      by (simp add: get_weather_def)
    with Some False show ?thesis by (auto dest: try_block_200)
  qed
qed

lemma weather_data_shape:
  assumes "weather_data city_name data = Inr body"
  shows "\<exists>t d h w. body = PDict [(''city'', PStr city_name), (''temperature'', t),
                                 (''description'', d), (''humidity'', h), (''wind_speed'', w)]"
  using assms unfolding weather_data_def
  by (auto dest!: and_then_Inr)

lemma weather_data_description:
  assumes "weather_data city_name data = Inr body"
  shows "\<exists>w ws s. getitem data ''weather'' = Inr (PList (w # ws))
           \<and> getitem w ''description'' = Inr (PStr s)
           \<and> getitem body ''description'' = Inr (PStr (capitalize s))"
proof -
  from assms obtain t weather w0 d0 d h w where
    wl: "getitem data ''weather'' = Inr weather" and w0: "getitem0 weather = Inr w0"
    and d0: "getitem w0 ''description'' = Inr d0" and d: "capitalize_method d0 = Inr d"
    and body: "body = PDict [(''city'', PStr city_name), (''temperature'', t),
                             (''description'', d), (''humidity'', h), (''wind_speed'', w)]"
    unfolding weather_data_def by (auto dest!: and_then_Inr)
  from w0 d0 obtain ws where "weather = PList (w0 # ws)"
    by (blast dest: getitem0_PList)
  moreover from d obtain s where "d0 = PStr s" and "d = PStr (capitalize s)"
    by (blast dest: capitalize_method_Inr)
  ultimately show ?thesis using wl d0 body by simp
qed

text \<open>The reshaping of one answer of the provider, with its two roundings of floats.\<close>

lemma weather_data_sydney_stub:
  "weather_data ''Sydney''
     (PDict [(''main'', PDict [(''temp'', PFloat (py_float 15.04)), (''humidity'', PInt 72)]),
             (''weather'', PList [PDict [(''description'', PStr ''light rain'')]]),
             (''wind'', PDict [(''speed'', PFloat (py_float 3.26))])])
   = Inr (PDict [(''city'', PStr ''Sydney''),
                 (''temperature'', PFloat (py_float 15.0)),
                 (''description'', PStr ''Light rain''),
                 (''humidity'', PInt 72),
                 (''wind_speed'', PFloat (py_float 3.3))])"
  by code_simp

section \<open>The health route\<close>

text \<open>
  C7. The health route takes nothing from the request. Whatever the environment variable
  held when the module was loaded, and with no call to the provider, it answers 200 with
  the status \<^verbatim>\<open>running\<close>, the service name and the four lookup keys of the registry,
  in lower case and in the registry's order, not the display names.
\<close>

theorem home_descriptor:
  "fst (home (load_module env)) =
     (200, PDict [(''status'', PStr ''running''),
                  (''service'', PStr ''Weather Backend API''),
                  (''available_cities'',
                   PList [PStr ''newyork'', PStr ''sydney'', PStr ''capetown'',
                          PStr ''bangkok''])])"
  by (simp add: home_def load_module_def)

section \<open>The weather route: checks before the call\<close>

text \<open>
  C1. Validation comes before the configuration check. A path segment whose lower-cased
  form is not a key of the registry is answered 400 with the error \<^verbatim>\<open>Invalid city\<close>
  (the spec's kind InvalidCity), whatever the credential is and whatever the provider
  would do. A segment whose lower-cased form is a key, when the credential is unset or
  empty, is answered 500 with the error \<^verbatim>\<open>Configuration error\<close> (the spec's kind
  ConfigurationError), which is not the answer for an invalid city.
\<close>

theorem validation_precedes_configuration:
  "(lower city \<notin> fst ` set (CITIES g) \<longrightarrow>
      fst (get_weather g prov city)
        = Inr (400, error_body ''Invalid city'' (invalid_city_message g city)))
   \<and> (lower city \<in> fst ` set (CITIES g) \<and> falsy (API_KEY g) \<longrightarrow>
      fst (get_weather g prov city)
        = Inr (500, error_body ''Configuration error''
                      ''OpenWeatherMap API key not configured'')
      \<and> fst (get_weather g prov city)
        \<noteq> Inr (400, error_body ''Invalid city'' (invalid_city_message g city)))"
  by (simp add: get_weather_def map_of_eq_None_iff)

theorem validation_precedes_configuration_witness:
  "lower ''Paris'' \<notin> fst ` set (CITIES (load_module None))
   \<and> fst (get_weather (load_module None) (stub_provider PNone) ''Paris'')
       = Inr (400, error_body ''Invalid city''
                     (''City '' @ [CHR 0x22] @ ''Paris'' @ [CHR 0x22]
                      @ '' not supported. Available cities: ''
                      @ ''['' @ [CHR 0x27] @ ''newyork'' @ [CHR 0x27] @ '', ''
                      @ [CHR 0x27] @ ''sydney'' @ [CHR 0x27] @ '', ''
                      @ [CHR 0x27] @ ''capetown'' @ [CHR 0x27] @ '', ''
                      @ [CHR 0x27] @ ''bangkok'' @ [CHR 0x27] @ '']''))
   \<and> lower ''Sydney'' \<in> fst ` set (CITIES (load_module (Some [])))
   \<and> falsy (API_KEY (load_module (Some [])))
   \<and> fst (get_weather (load_module (Some [])) (stub_provider PNone) ''Sydney'')
       = Inr (500, error_body ''Configuration error''
                     ''OpenWeatherMap API key not configured'')"
proof -
  have paris: "lower ''Paris'' \<notin> fst ` set (CITIES (load_module None))"
    by code_simp
  have sydney: "lower ''Sydney'' \<in> fst ` set (CITIES (load_module (Some [])))"
    by code_simp
  have unset: "falsy (API_KEY (load_module (Some [])))"
    by code_simp
  have msg: "invalid_city_message (load_module None) ''Paris''
      = ''City '' @ [CHR 0x22] @ ''Paris'' @ [CHR 0x22]
        @ '' not supported. Available cities: ''
        @ ''['' @ [CHR 0x27] @ ''newyork'' @ [CHR 0x27] @ '', ''
        @ [CHR 0x27] @ ''sydney'' @ [CHR 0x27] @ '', ''
        @ [CHR 0x27] @ ''capetown'' @ [CHR 0x27] @ '', ''
        @ [CHR 0x27] @ ''bangkok'' @ [CHR 0x27] @ '']''"
    by code_simp
  from paris sydney unset
    validation_precedes_configuration [of "''Paris''" "load_module None" "stub_provider PNone"]
    validation_precedes_configuration
      [of "''Sydney''" "load_module (Some [])" "stub_provider PNone"]
  show ?thesis
    unfolding msg by blast
qed

text \<open>
  C6. The key is matched without regard to case. For each of the four supported keys and
  every path segment whose lower-cased form is that key (\<^verbatim>\<open>NewYork\<close>,
  \<^verbatim>\<open>NEWYORK\<close> and \<^verbatim>\<open>newyork\<close> among them), the route does what it does for the key
  itself, and with a credential configured it runs the outbound call and the reshaping
  with the key's display name: \<^verbatim>\<open>New York\<close>, \<^verbatim>\<open>Sydney\<close>, \<^verbatim>\<open>Cape Town\<close>,
  \<^verbatim>\<open>Bangkok\<close>.
\<close>

theorem case_insensitive_city_key:
  assumes "lower city = k"
    and "(k, name) \<in> set [(''newyork'', ''New York''), (''sydney'', ''Sydney''),
                           (''capetown'', ''Cape Town''), (''bangkok'', ''Bangkok'')]"
  shows "get_weather (load_module env) prov city = get_weather (load_module env) prov k
     \<and> (\<not> falsy env \<longrightarrow>
          fst (get_weather (load_module env) prov city) = try_block (load_module env) prov name
          \<and> params (weather_request (load_module env) name)
              = [(''q'', Some name), (''appid'', env), (''units'', Some ''metric'')])"
proof -
  from assms(2) have kk: "lower k = k"
    by (auto simp: lower_registry_keys)
  from assms(2) have name: "map_of (CITIES (load_module env)) k = Some name"
    by (auto simp: load_module_def)
  from assms(1) kk name show ?thesis
    by (simp add: get_weather_def weather_request_def) (simp add: load_module_def)
qed

theorem case_insensitive_city_key_witness:
  "lower ''NewYork'' = ''newyork'' \<and> lower ''NEWYORK'' = ''newyork''
   \<and> lower ''newyork'' = ''newyork''
   \<and> \<not> falsy (Some ''secret'')
   \<and> fst (get_weather (load_module (Some ''secret'')) (stub_provider PNone) ''NewYork'')
       = try_block (load_module (Some ''secret'')) (stub_provider PNone) ''New York''
   \<and> fst (get_weather (load_module (Some ''secret'')) (stub_provider PNone) ''NEWYORK'')
       = try_block (load_module (Some ''secret'')) (stub_provider PNone) ''New York''
   \<and> fst (get_weather (load_module (Some ''secret'')) (stub_provider PNone) ''newyork'')
       = try_block (load_module (Some ''secret'')) (stub_provider PNone) ''New York''"
proof -
  have l1: "lower ''NewYork'' = ''newyork''" by code_simp
  have l2: "lower ''NEWYORK'' = ''newyork''" by code_simp
  have l3: "lower ''newyork'' = ''newyork''" by code_simp
  have m: "(''newyork'', ''New York'')
      \<in> set [(''newyork'', ''New York''), (''sydney'', ''Sydney''),
              (''capetown'', ''Cape Town''), (''bangkok'', ''Bangkok'')]"
    by simp
  have c: "\<not> falsy (Some ''secret'')" by (simp add: falsy_def)
  from c l1 l2 l3
    case_insensitive_city_key [OF l1 m, of "Some ''secret''" "stub_provider PNone"]
    case_insensitive_city_key [OF l2 m, of "Some ''secret''" "stub_provider PNone"]
    case_insensitive_city_key [OF l3 m, of "Some ''secret''" "stub_provider PNone"]
  show ?thesis by blast
qed

section \<open>The weather route: the outbound call and its failures\<close>

text \<open>
  C5. For a valid key and a configured credential, the request that is sent carries the
  timeout 10, and the three failures of the outbound call are answered as follows: a
  timeout with 504 and the error \<^verbatim>\<open>Timeout\<close>; an HTTP error status of the provider
  (the \<open>HTTPError\<close> that \<^verbatim>\<open>raise_for_status\<close> raises) with 502 and the error
  \<^verbatim>\<open>API Error\<close>, the spec's kind UpstreamHTTPError; any other failure of the request
  (connection, transport) with 502 and the error \<^verbatim>\<open>Network Error\<close>, the spec's kind
  NetworkError.
\<close>

theorem upstream_failures:
  assumes "map_of (CITIES g) (lower city) = Some name" and "\<not> falsy (API_KEY g)"
  shows "timeout (weather_request g name) = 10
     \<and> (prov (weather_request g name) = Inl Timeout \<longrightarrow>
          fst (get_weather g prov city)
            = Inr (504, error_body ''Timeout'' ''Request to OpenWeatherMap API timed out''))
     \<and> (prov (weather_request g name) = Inl (HTTPError code) \<longrightarrow>
          fst (get_weather g prov city)
            = Inr (502, error_body ''API Error''
                          (''OpenWeatherMap API returned an error: '' @ str_nat code)))
     \<and> (prov (weather_request g name) = Inl RequestException \<longrightarrow>
          fst (get_weather g prov city)
            = Inr (502, error_body ''Network Error''
                          ''Failed to connect to OpenWeatherMap API''))"
  using assms
  by (simp add: get_weather_def try_block_def and_then_def weather_request_def)

theorem upstream_failures_witness:
  "map_of (CITIES (load_module (Some ''secret''))) (lower ''sydney'') = Some ''Sydney''
   \<and> \<not> falsy (API_KEY (load_module (Some ''secret'')))
   \<and> fst (get_weather (load_module (Some ''secret'')) (failing_provider Timeout) ''sydney'')
       = Inr (504, error_body ''Timeout'' ''Request to OpenWeatherMap API timed out'')
   \<and> fst (get_weather (load_module (Some ''secret'')) (failing_provider (HTTPError 401))
            ''sydney'')
       = Inr (502, error_body ''API Error'' ''OpenWeatherMap API returned an error: 401'')
   \<and> fst (get_weather (load_module (Some ''secret'')) (failing_provider RequestException)
            ''sydney'')
       = Inr (502, error_body ''Network Error'' ''Failed to connect to OpenWeatherMap API'')"
proof -
  have v: "map_of (CITIES (load_module (Some ''secret''))) (lower ''sydney'') = Some ''Sydney''"
    by code_simp
  have c: "\<not> falsy (API_KEY (load_module (Some ''secret'')))"
    by code_simp
  have s: "''OpenWeatherMap API returned an error: '' @ str_nat 401
             = ''OpenWeatherMap API returned an error: 401''"
    by code_simp
  from v c
    upstream_failures [OF v c, of "failing_provider Timeout" 0]
    upstream_failures [OF v c, of "failing_provider (HTTPError 401)" 401]
    upstream_failures [OF v c, of "failing_provider RequestException" 0]
  show ?thesis
    unfolding s [symmetric] by (simp add: failing_provider_def)
qed

section \<open>The weather route: reshaping the provider's answer\<close>

text \<open>
  C2, as the code has it. With a credential configured and a path segment that resolves
  to \<^verbatim>\<open>Sydney\<close>, a provider that answers the request for Sydney with
  \<^verbatim>\<open>{main: {temp: 15.04, humidity: 72}, weather: [{description: "light rain"}],
  wind: {speed: 3.26}}\<close> makes the route answer 200 with exactly the entries
  \<^verbatim>\<open>city\<close> \<^verbatim>\<open>Sydney\<close>, \<^verbatim>\<open>temperature\<close> 15.0, \<^verbatim>\<open>description\<close>
  \<^verbatim>\<open>Light rain\<close>, \<^verbatim>\<open>humidity\<close> 72 and \<^verbatim>\<open>wind_speed\<close> 3.3. The numbers are
  the floats that these literals denote.
\<close>

theorem sydney_stub_result:
  assumes "lower city = ''sydney''" and "\<not> falsy env"
    and "prov (weather_request (load_module env) ''Sydney'')
           = Inr (PDict [(''main'', PDict [(''temp'', PFloat (py_float 15.04)),
                                           (''humidity'', PInt 72)]),
                         (''weather'', PList [PDict [(''description'', PStr ''light rain'')]]),
                         (''wind'', PDict [(''speed'', PFloat (py_float 3.26))])])"
  shows "fst (get_weather (load_module env) prov city)
           = Inr (200, PDict [(''city'', PStr ''Sydney''),
                              (''temperature'', PFloat (py_float 15.0)),
                              (''description'', PStr ''Light rain''),
                              (''humidity'', PInt 72),
                              (''wind_speed'', PFloat (py_float 3.3))])"
proof -
  let ?stub = "PDict [(''main'', PDict [(''temp'', PFloat (py_float 15.04)),
                                        (''humidity'', PInt 72)]),
                      (''weather'', PList [PDict [(''description'', PStr ''light rain'')]]),
                      (''wind'', PDict [(''speed'', PFloat (py_float 3.26))])]"
  let ?body = "PDict [(''city'', PStr ''Sydney''),
                      (''temperature'', PFloat (py_float 15.0)),
                      (''description'', PStr ''Light rain''),
                      (''humidity'', PInt 72),
                      (''wind_speed'', PFloat (py_float 3.3))]"
  have wd: "weather_data ''Sydney'' ?stub = Inr ?body"
    by (rule weather_data_sydney_stub)
  have "map_of (CITIES (load_module env)) ''sydney'' = Some ''Sydney''"
    by (simp add: load_module_def)
  moreover have "API_KEY (load_module env) = env"
    by (simp add: load_module_def)
  ultimately have "fst (get_weather (load_module env) prov city)
      = try_block (load_module env) prov ''Sydney''"
    using assms(1,2) by (simp add: get_weather_def)
  also have "\<dots> = handle (and_then (weather_data ''Sydney'' ?stub) (\<lambda>body. Inr (200, body)))"
    unfolding try_block_def assms(3) by (simp only: and_then_def sum.case)
  also have "\<dots> = Inr (200, ?body)"
    by (simp only: wd and_then_def sum.case handle.simps)
  finally show ?thesis .
qed

theorem sydney_stub_result_witness:
  "lower ''sydney'' = ''sydney'' \<and> \<not> falsy (Some ''secret'')
   \<and> fst (get_weather (load_module (Some ''secret''))
            (stub_provider
               (PDict [(''main'', PDict [(''temp'', PFloat (py_float 15.04)),
                                         (''humidity'', PInt 72)]),
                       (''weather'', PList [PDict [(''description'', PStr ''light rain'')]]),
                       (''wind'', PDict [(''speed'', PFloat (py_float 3.26))])]))
            ''sydney'')
       = Inr (200, PDict [(''city'', PStr ''Sydney''),
                          (''temperature'', PFloat (Finite False 15)),
                          (''description'', PStr ''Light rain''),
                          (''humidity'', PInt 72),
                          (''wind_speed'',
                           PFloat (Finite False (3715469692580659 / 1125899906842624)))])"
proof -
  have l: "lower ''sydney'' = ''sydney''" by code_simp
  have c: "\<not> falsy (Some ''secret'')" by code_simp
  have t: "py_float 15.0 = Finite False 15" by code_simp
  have w: "py_float 3.3 = Finite False (3715469692580659 / 1125899906842624)" by code_simp
  from l c sydney_stub_result [OF l c, of "stub_provider
               (PDict [(''main'', PDict [(''temp'', PFloat (py_float 15.04)),
                                         (''humidity'', PInt 72)]),
                       (''weather'', PList [PDict [(''description'', PStr ''light rain'')]]),
                       (''wind'', PDict [(''speed'', PFloat (py_float 3.26))])])"]
  show ?thesis
    unfolding t w by (simp add: stub_provider_def)
qed

text \<open>
  C2 as the spec words it, with the wind speed under the key \<^verbatim>\<open>windSpeed\<close>, fails:
  for the same provider answer the body is not the dictionary with the entries
  \<^verbatim>\<open>city\<close>, \<^verbatim>\<open>temperature\<close>, \<^verbatim>\<open>description\<close>, \<^verbatim>\<open>humidity\<close> and
  \<^verbatim>\<open>windSpeed\<close>.
\<close>

theorem sydney_stub_windSpeed_counterexample:
  "fst (get_weather (load_module (Some ''secret''))
          (stub_provider
             (PDict [(''main'', PDict [(''temp'', PFloat (py_float 15.04)),
                                       (''humidity'', PInt 72)]),
                     (''weather'', PList [PDict [(''description'', PStr ''light rain'')]]),
                     (''wind'', PDict [(''speed'', PFloat (py_float 3.26))])]))
          ''sydney'')
     \<noteq> Inr (200, PDict [(''city'', PStr ''Sydney''),
                        (''temperature'', PFloat (py_float 15.0)),
                        (''description'', PStr ''Light rain''),
                        (''humidity'', PInt 72),
                        (''windSpeed'', PFloat (py_float 3.3))])"
proof -
  let ?stub = "PDict [(''main'', PDict [(''temp'', PFloat (py_float 15.04)),
                                        (''humidity'', PInt 72)]),
                      (''weather'', PList [PDict [(''description'', PStr ''light rain'')]]),
                      (''wind'', PDict [(''speed'', PFloat (py_float 3.26))])]"
  have "fst (get_weather (load_module (Some ''secret'')) (stub_provider ?stub) ''sydney'')
      = try_block (load_module (Some ''secret'')) (stub_provider ?stub) ''Sydney''"
    by (simp add: get_weather_def Let_def load_module_def falsy_def lower_registry_keys)
  also have "\<dots> = handle (and_then (weather_data ''Sydney'' ?stub) (\<lambda>body. Inr (200, body)))"
    by (simp only: try_block_def stub_provider_def and_then_def sum.case)
  also have "\<dots> = Inr (200, PDict [(''city'', PStr ''Sydney''),
                                  (''temperature'', PFloat (py_float 15.0)),
                                  (''description'', PStr ''Light rain''),
                                  (''humidity'', PInt 72),
                                  (''wind_speed'', PFloat (py_float 3.3))])"
    by (simp only: weather_data_sydney_stub and_then_def sum.case handle.simps)
  finally show ?thesis
    by simp
qed

text \<open>
  C3, as the code has it. In every answer with status 200 the provider's answer to the
  request for the registry's display name has a \<^verbatim>\<open>weather\<close> list with a first entry
  whose \<^verbatim>\<open>description\<close> is a string, and when that string is ASCII the description
  of the answer is that string with its first character in upper case and every
  remaining character in lower case.
\<close>

theorem description_capitalized:
  assumes "fst (get_weather g prov city) = Inr (200, body)"
  shows "\<exists>city_name data w ws s.
           map_of (CITIES g) (lower city) = Some city_name
         \<and> prov (weather_request g city_name) = Inr data
         \<and> getitem data ''weather'' = Inr (PList (w # ws))
         \<and> getitem w ''description'' = Inr (PStr s)
         \<and> (isascii s \<longrightarrow>
              getitem body ''description''
                = Inr (PStr (case s of [] \<Rightarrow> []
                             | c # cs \<Rightarrow> upper_char c # map lower_char cs)))"
proof -
  from assms obtain city_name data where
    n: "map_of (CITIES g) (lower city) = Some city_name"
    and p: "prov (weather_request g city_name) = Inr data"
    and wd: "weather_data city_name data = Inr body"
    by (blast dest: get_weather_200)
  from wd obtain w ws s where
    "getitem data ''weather'' = Inr (PList (w # ws))"
    "getitem w ''description'' = Inr (PStr s)"
    "getitem body ''description'' = Inr (PStr (capitalize s))"
    by (blast dest: weather_data_description)
  with n p show ?thesis
    unfolding capitalize_def by blast
qed

theorem description_capitalized_witness:
  "fst (get_weather (load_module (Some ''secret''))
          (stub_provider
             (PDict [(''main'', PDict [(''temp'', PInt 15), (''humidity'', PInt 72)]),
                     (''weather'', PList [PDict [(''description'', PStr ''light RAIN'')]]),
                     (''wind'', PDict [(''speed'', PInt 3)])]))
          ''sydney'')
     = Inr (200, PDict [(''city'', PStr ''Sydney''), (''temperature'', PInt 15),
                        (''description'', PStr ''Light rain''), (''humidity'', PInt 72),
                        (''wind_speed'', PInt 3)])
   \<and> isascii ''light RAIN''
   \<and> getitem (PDict [(''city'', PStr ''Sydney''), (''temperature'', PInt 15),
                      (''description'', PStr ''Light rain''), (''humidity'', PInt 72),
                      (''wind_speed'', PInt 3)]) ''description''
       = Inr (PStr (upper_char CHR ''l'' # map lower_char ''ight RAIN''))
   \<and> upper_char CHR ''l'' # map lower_char ''ight RAIN'' = ''Light rain''"
proof -
  let ?stub = "PDict [(''main'', PDict [(''temp'', PInt 15), (''humidity'', PInt 72)]),
                      (''weather'', PList [PDict [(''description'', PStr ''light RAIN'')]]),
                      (''wind'', PDict [(''speed'', PInt 3)])]"
  let ?body = "PDict [(''city'', PStr ''Sydney''), (''temperature'', PInt 15),
                      (''description'', PStr ''Light rain''), (''humidity'', PInt 72),
                      (''wind_speed'', PInt 3)]"
  have h: "fst (get_weather (load_module (Some ''secret'')) (stub_provider ?stub) ''sydney'')
             = Inr (200, ?body)"
    by code_simp
  have a: "isascii ''light RAIN''"
    by code_simp
  have e: "upper_char CHR ''l'' # map lower_char ''ight RAIN'' = ''Light rain''"
    by code_simp
  from description_capitalized [OF h] obtain city_name data w ws s where
    d: "stub_provider ?stub (weather_request (load_module (Some ''secret'')) city_name)
          = Inr data"
    and wl: "getitem data ''weather'' = Inr (PList (w # ws))"
    and ds: "getitem w ''description'' = Inr (PStr s)"
    and c: "isascii s \<longrightarrow>
              getitem ?body ''description''
                = Inr (PStr (case s of [] \<Rightarrow> []
                             | c # cs \<Rightarrow> upper_char c # map lower_char cs))"
    by blast
  from d have "data = ?stub"
    by (simp add: stub_provider_def)
  with wl have "w = PDict [(''description'', PStr ''light RAIN'')]"
    by simp
  with ds have s: "s = ''light RAIN''"
    by simp
  from c a have "getitem ?body ''description''
      = Inr (PStr (case ''light RAIN'' of [] \<Rightarrow> []
                   | c # cs \<Rightarrow> upper_char c # map lower_char cs))"
    unfolding s by (rule mp)
  then have "getitem ?body ''description''
      = Inr (PStr (upper_char CHR ''l'' # map lower_char ''ight RAIN''))"
    by (simp only: list.case)
  with h a e show ?thesis
    by (intro conjI)
qed

text \<open>
  C3 as the spec words it, with the remaining characters unchanged, fails: for the
  description \<^verbatim>\<open>light RAIN\<close> the answer's description is \<^verbatim>\<open>Light rain\<close>, not
  \<^verbatim>\<open>Light RAIN\<close>.
\<close>

theorem description_rest_unchanged_counterexample:
  "fst (get_weather (load_module (Some ''secret''))
          (stub_provider
             (PDict [(''main'', PDict [(''temp'', PInt 15), (''humidity'', PInt 72)]),
                     (''weather'', PList [PDict [(''description'', PStr ''light RAIN'')]]),
                     (''wind'', PDict [(''speed'', PInt 3)])]))
          ''sydney'')
     \<noteq> Inr (200, PDict [(''city'', PStr ''Sydney''), (''temperature'', PInt 15),
                        (''description'', PStr ''Light RAIN''), (''humidity'', PInt 72),
                        (''wind_speed'', PInt 3)])"
  by code_simp

text \<open>
  C4 fails on a provider answer whose \<^verbatim>\<open>weather\<close> list is empty: \<^verbatim>\<open>[][0]\<close> raises
  \<open>IndexError\<close>, which is neither a \<open>KeyError\<close> nor a \<open>ValueError\<close>, so no
  \<^verbatim>\<open>except\<close> clause takes it and it leaves the function instead of becoming the
  502 answer with the error \<^verbatim>\<open>Data Error\<close>.
\<close>

theorem empty_weather_list_escapes:
  "fst (get_weather (load_module (Some ''secret''))
          (stub_provider
             (PDict [(''main'', PDict [(''temp'', PInt 15), (''humidity'', PInt 72)]),
                     (''weather'', PList []),
                     (''wind'', PDict [(''speed'', PInt 3)])]))
          ''sydney'')
     = Inl IndexError"
  by code_simp

text \<open>
  By contrast, an answer of the provider that lacks \<^verbatim>\<open>wind.speed\<close> raises
  \<open>KeyError\<close> and is answered 502 with the error \<^verbatim>\<open>Data Error\<close>.
\<close>

lemma missing_wind_speed_is_data_error:
  "fst (get_weather (load_module (Some ''secret''))
          (stub_provider
             (PDict [(''main'', PDict [(''temp'', PInt 15), (''humidity'', PInt 72)]),
                     (''weather'', PList [PDict [(''description'', PStr ''light rain'')]]),
                     (''wind'', PDict [])]))
          ''sydney'')
     = Inr (502, error_body ''Data Error''
                   ''Unexpected response format from OpenWeatherMap API'')"
  by code_simp

text \<open>
  C8. In every answer with status 200 the city is the display name that the registry
  gives for the lower-cased path segment, for every provider, so whatever name the
  provider's answer carries.
\<close>

theorem city_is_registry_name:
  assumes "fst (get_weather g prov city) = Inr (200, body)"
  shows "\<exists>city_name. map_of (CITIES g) (lower city) = Some city_name
           \<and> getitem body ''city'' = Inr (PStr city_name)"
proof -
  from assms obtain city_name data where
    n: "map_of (CITIES g) (lower city) = Some city_name"
    and wd: "weather_data city_name data = Inr body"
    by (blast dest: get_weather_200)
  from wd have "getitem body ''city'' = Inr (PStr city_name)"
    by (auto dest: weather_data_shape)
  with n show ?thesis by blast
qed

theorem city_is_registry_name_witness:
  "fst (get_weather (load_module (Some ''secret''))
          (stub_provider
             (PDict [(''name'', PStr ''Sydney Olympic Park''),
                     (''main'', PDict [(''temp'', PInt 15), (''humidity'', PInt 72)]),
                     (''weather'', PList [PDict [(''description'', PStr ''clear sky'')]]),
                     (''wind'', PDict [(''speed'', PInt 3)])]))
          ''SYDNEY'')
     = Inr (200, PDict [(''city'', PStr ''Sydney''), (''temperature'', PInt 15),
                        (''description'', PStr ''Clear sky''), (''humidity'', PInt 72),
                        (''wind_speed'', PInt 3)])
   \<and> (\<exists>city_name. map_of (CITIES (load_module (Some ''secret''))) (lower ''SYDNEY'')
                      = Some city_name
         \<and> getitem (PDict [(''city'', PStr ''Sydney''), (''temperature'', PInt 15),
                            (''description'', PStr ''Clear sky''), (''humidity'', PInt 72),
                            (''wind_speed'', PInt 3)]) ''city'' = Inr (PStr city_name))"
proof -
  have h: "fst (get_weather (load_module (Some ''secret''))
          (stub_provider
             (PDict [(''name'', PStr ''Sydney Olympic Park''),
                     (''main'', PDict [(''temp'', PInt 15), (''humidity'', PInt 72)]),
                     (''weather'', PList [PDict [(''description'', PStr ''clear sky'')]]),
                     (''wind'', PDict [(''speed'', PInt 3)])]))
          ''SYDNEY'')
     = Inr (200, PDict [(''city'', PStr ''Sydney''), (''temperature'', PInt 15),
                        (''description'', PStr ''Clear sky''), (''humidity'', PInt 72),
                        (''wind_speed'', PInt 3)])"
    by code_simp
  from h city_is_registry_name [OF h] show ?thesis
    by (rule conjI)
qed

text \<open>
  C10. The body of every answer with status 200 is a dictionary with the five keys
  \<^verbatim>\<open>city\<close>, \<^verbatim>\<open>temperature\<close>, \<^verbatim>\<open>description\<close>, \<^verbatim>\<open>humidity\<close> and
  \<^verbatim>\<open>wind_speed\<close>, each once, and no other key; \<^verbatim>\<open>windSpeed\<close> is not among them.
\<close>

theorem success_body_keys:
  assumes "fst (get_weather g prov city) = Inr (200, body)"
  shows "\<exists>kvs. body = PDict kvs
           \<and> map fst kvs = [''city'', ''temperature'', ''description'', ''humidity'',
                             ''wind_speed'']
           \<and> ''windSpeed'' \<notin> set (map fst kvs)"
proof -
  from assms obtain city_name data where "weather_data city_name data = Inr body"
    by (blast dest: get_weather_200)
  then obtain t d h w where
    "body = PDict [(''city'', PStr city_name), (''temperature'', t),
                   (''description'', d), (''humidity'', h), (''wind_speed'', w)]"
    by (blast dest: weather_data_shape)
  then show ?thesis by simp
qed

theorem success_body_keys_witness:
  "fst (get_weather (load_module (Some ''secret''))
          (stub_provider
             (PDict [(''main'', PDict [(''temp'', PInt 30), (''humidity'', PInt 80)]),
                     (''weather'', PList [PDict [(''description'', PStr ''haze'')]]),
                     (''wind'', PDict [(''speed'', PInt 2)])]))
          ''bangkok'')
     = Inr (200, PDict [(''city'', PStr ''Bangkok''), (''temperature'', PInt 30),
                        (''description'', PStr ''Haze''), (''humidity'', PInt 80),
                        (''wind_speed'', PInt 2)])
   \<and> (\<exists>kvs. PDict [(''city'', PStr ''Bangkok''), (''temperature'', PInt 30),
                     (''description'', PStr ''Haze''), (''humidity'', PInt 80),
                     (''wind_speed'', PInt 2)] = PDict kvs
         \<and> map fst kvs = [''city'', ''temperature'', ''description'', ''humidity'',
                           ''wind_speed'']
         \<and> ''windSpeed'' \<notin> set (map fst kvs))"
proof -
  have h: "fst (get_weather (load_module (Some ''secret''))
          (stub_provider
             (PDict [(''main'', PDict [(''temp'', PInt 30), (''humidity'', PInt 80)]),
                     (''weather'', PList [PDict [(''description'', PStr ''haze'')]]),
                     (''wind'', PDict [(''speed'', PInt 2)])]))
          ''bangkok'')
     = Inr (200, PDict [(''city'', PStr ''Bangkok''), (''temperature'', PInt 30),
                        (''description'', PStr ''Haze''), (''humidity'', PInt 80),
                        (''wind_speed'', PInt 2)])"
    by code_simp
  from h success_body_keys [OF h] show ?thesis
    by (rule conjI)
qed

section \<open>The weather route leaves the globals alone\<close>

text \<open>
  C9. Whatever the path segment, the provider and the outcome (an answer of any status or
  an escaping exception), the globals after the call are the globals before it: the
  registry and the credential in particular. So a second call starts from the same
  registry and credential as the first.
\<close>

theorem get_weather_preserves_globals:
  "snd (get_weather g prov city) = g
   \<and> CITIES (snd (get_weather g prov city)) = CITIES g
   \<and> API_KEY (snd (get_weather g prov city)) = API_KEY g
   \<and> snd (get_weather (snd (get_weather g prov city)) prov' city) = g"
proof -
  have "snd (get_weather g' p c) = g'" for g' p c
    by (simp add: get_weather_def Let_def split: option.split)
  then show ?thesis by simp
qed

end
